theory Spec2Isabelle
  imports Complex_Main "HOL-Library.Sublist"
begin

section \<open>Hand teleop backend: data model\<close>

text \<open>
  The embedding follows \<^verbatim>\<open>projects/hand-teleop-system/render_backend.py\<close>.
  JSON values received from clients are arbitrary, so they are a datatype of their own;
  a Python \<^verbatim>\<open>dict\<close> decoded from JSON is an association list read with \<open>map_of\<close>.
  Python floats are only stored and compared with literals, never computed with, so they
  are modelled as \<open>real\<close> numbers.
\<close>

datatype json =
    JNull
  | JBool bool
  | JInt int
  | JFloat real
  | JStr string
  | JArr "json list"
  | JObj "(string \<times> json) list"

datatype py_exception =
    AttributeError string
  | HTTPException nat string
  | WebSocketDisconnect
  | TransportError

type_synonym datetime = nat

type_synonym WebSocket = nat

record HandPosition =
  pos_x :: real
  pos_y :: real
  pos_z :: real

record FingertipData =
  thumb :: "HandPosition option"
  index_pip :: "HandPosition option"
  index_tip :: "HandPosition option"

record RobotConfig =
  robot_type :: string
  end_effector :: string
  workspace_bounds :: "(string \<times> real list) list"

record TrackingSession =
  session_id :: string
  robot_config :: RobotConfig
  active :: bool
  start_time :: "datetime option"

text \<open>The default values of the fields of \<^verbatim>\<open>RobotConfig\<close>.\<close>

definition default_RobotConfig :: RobotConfig where
  "default_RobotConfig =
     \<lparr>robot_type = ''SO-101'',
      end_effector = ''gripper'',
      workspace_bounds =
        [(''x'', [-0.3, 0.3]), (''y'', [-0.2, 0.4]), (''z'', [0.1, 0.5])]\<rparr>"

text \<open>\<^verbatim>\<open>FingertipData()\<close>: every field defaults to \<^verbatim>\<open>None\<close>.\<close>

definition empty_FingertipData :: FingertipData where
  "empty_FingertipData = \<lparr>thumb = None, index_pip = None, index_tip = None\<rparr>"

subsection \<open>The result of one tracking call\<close>

record Orientation =
  roll :: real
  pitch :: real
  yaw :: real

record EndEffectorPose =
  position :: HandPosition
  orientation :: Orientation

record RobotControl =
  joint_angles :: "real list"
  end_effector_pose :: EndEffectorPose
  gripper_state :: string
  in_workspace :: bool
  confidence :: real

record TrackingResult =
  success :: bool
  timestamp :: datetime
  hand_detected :: bool
  fingertips :: FingertipData
  robot_control :: RobotControl
  result_robot_type :: string
  processing_time_ms :: real

subsection \<open>The robot catalog\<close>

record RobotProfile =
  profile_id :: string
  profile_name :: string
  dof :: nat
  description :: string

definition get_available_robots :: "RobotProfile list" where
  "get_available_robots =
     [\<lparr>profile_id = ''SO-101'', profile_name = ''SO-101 Humanoid Arm'', dof = 6,
       description = ''6-DOF humanoid robot arm with gripper''\<rparr>,
      \<lparr>profile_id = ''SO-100'', profile_name = ''SO-100 Industrial Arm'', dof = 6,
       description = ''Industrial 6-DOF robot arm''\<rparr>,
      \<lparr>profile_id = ''KOCH'', profile_name = ''Koch Robotic Arm'', dof = 7,
       description = ''7-DOF research robot arm''\<rparr>]"

text \<open>The degree-of-freedom count the catalog lists for a robot id, if it lists the id.\<close>

definition catalog_dof :: "string \<Rightarrow> nat option" where
  "catalog_dof rid = map_of (map (\<lambda>p. (profile_id p, dof p)) get_available_robots) rid"

section \<open>Python dictionary access on decoded JSON\<close>

text \<open>The name Python prints for the type of a decoded JSON value.\<close>

fun py_type_name :: "json \<Rightarrow> string" where
  "py_type_name JNull = ''NoneType''"
| "py_type_name (JBool _) = ''bool''"
| "py_type_name (JInt _) = ''int''"
| "py_type_name (JFloat _) = ''float''"
| "py_type_name (JStr _) = ''str''"
| "py_type_name (JArr _) = ''list''"
| "py_type_name (JObj _) = ''dict''"

text \<open>
  \<^verbatim>\<open>data.get(key, default)\<close>: only a \<^verbatim>\<open>dict\<close> has the method; on every other
  decoded JSON value the attribute lookup raises \<^verbatim>\<open>AttributeError\<close>. The left value is
  the text of that exception (what \<^verbatim>\<open>str(e)\<close> gives for it), the only exception these
  lookups raise.
\<close>

fun py_get :: "json \<Rightarrow> string \<Rightarrow> json \<Rightarrow> string + json" where
  "py_get (JObj d) k dflt = Inr (case map_of d k of None \<Rightarrow> dflt | Some v \<Rightarrow> v)"
| "py_get v k dflt =
     Inl ([CHR 0x27] @ py_type_name v @ [CHR 0x27] @
          '' object has no attribute '' @ [CHR 0x27] @ ''get'' @ [CHR 0x27])"

section \<open>The tracking endpoint\<close>

text \<open>
  \<^verbatim>\<open>process_hand_tracking(data)\<close> reads the global configuration and the clock, which are
  parameters here. The only statement of the \<^verbatim>\<open>try\<close> block that can raise is the
  lookup of the image; its \<^verbatim>\<open>AttributeError\<close> is turned into
  \<^verbatim>\<open>HTTPException(status_code=500)\<close> whose detail ends with the text of the error.
\<close>

definition detected_fingertips :: FingertipData where
  "detected_fingertips =
     \<lparr>thumb = Some \<lparr>pos_x = 0.45, pos_y = 0.35, pos_z = 0.2\<rparr>,
      index_pip = Some \<lparr>pos_x = 0.52, pos_y = 0.28, pos_z = 0.15\<rparr>,
      index_tip = Some \<lparr>pos_x = 0.58, pos_y = 0.22, pos_z = 0.1\<rparr>\<rparr>"

definition detected_control :: RobotControl where
  "detected_control =
     \<lparr>joint_angles = [45.2, -30.5, 60.1, 15.0, -45.0, 90.0],
      end_effector_pose =
        \<lparr>position = \<lparr>pos_x = 0.25, pos_y = 0.15, pos_z = 0.30\<rparr>,
         orientation = \<lparr>roll = 0, pitch = 45, yaw = -30\<rparr>\<rparr>,
      gripper_state = ''open'',
      in_workspace = True,
      confidence = 0.94\<rparr>"

definition idle_control :: RobotControl where
  "idle_control =
     \<lparr>joint_angles = [0, 0, 0, 0, 0, 0],
      end_effector_pose =
        \<lparr>position = \<lparr>pos_x = 0, pos_y = 0, pos_z = 0\<rparr>,
         orientation = \<lparr>roll = 0, pitch = 0, yaw = 0\<rparr>\<rparr>,
      gripper_state = ''open'',
      in_workspace = False,
      confidence = 0.0\<rparr>"

definition process_hand_tracking ::
  "RobotConfig \<Rightarrow> datetime \<Rightarrow> json \<Rightarrow> py_exception + TrackingResult" where
  "process_hand_tracking current_robot_config now data =
     (case py_get data ''image'' (JStr '''') of
        Inl msg \<Rightarrow> Inl (HTTPException 500 (''Tracking error: '' @ msg))
      | Inr img \<Rightarrow>
          (let detected = (img \<noteq> JStr '''') in
           Inr \<lparr>success = True,
                timestamp = now,
                hand_detected = detected,
                fingertips = (if detected then detected_fingertips else empty_FingertipData),
                robot_control = (if detected then detected_control else idle_control),
                result_robot_type = robot_type current_robot_config,
                processing_time_ms = 16.7\<rparr>))"

section \<open>Global state and the network\<close>

text \<open>
  The three module-level globals, together with the part of the outside world the
  server acts on: whether a send on a connection succeeds (\<open>link_up\<close>) and the
  messages each connection has been sent so far (\<open>outbox\<close>).
  \<^verbatim>\<open>websocket_connections\<close> is a Python list, so order and duplicates are kept.
\<close>

datatype ws_message =
    Config RobotConfig
  | Pong
  | TrackingResultMsg TrackingResult
  | ConfigUpdate RobotConfig

record state =
  active_sessions :: "string \<rightharpoonup> TrackingSession"
  websocket_connections :: "WebSocket list"
  current_robot_config :: RobotConfig
  link_up :: "WebSocket \<Rightarrow> bool"
  outbox :: "WebSocket \<Rightarrow> ws_message list"

text \<open>\<^verbatim>\<open>await websocket.send_json(message)\<close>: delivers the message or raises.\<close>

definition send_json :: "WebSocket \<Rightarrow> ws_message \<Rightarrow> state \<Rightarrow> py_exception + state" where
  "send_json ws m st =
     (if link_up st ws
      then Inr (st\<lparr>outbox := (outbox st)(ws := outbox st ws @ [m])\<rparr>)
      else Inl TransportError)"

section \<open>Broadcasting a configuration update\<close>

text \<open>
  \<^verbatim>\<open>broadcast_config_update\<close> iterates over the module-level list itself, not over a
  copy, and awaits a send in every iteration. While a send is awaited the event loop runs
  other coroutines, which may append to the list (a handler that starts), remove from it
  (a handler's \<^verbatim>\<open>finally\<close> block), assign the configuration or write the list back (another
  request). So the loop is modelled as Python runs it: a list iterator is a position in
  the live list, tested against the current length before every element, and the state
  of the suspended loop is its message, that position and \<^verbatim>\<open>active_connections\<close>.
\<close>

record broadcast_task =
  message :: ws_message
  next_index :: nat
  active_connections :: "WebSocket list"

text \<open>
  One iteration, from the test of the iterator to the end of the awaited send: the
  connection at the position is sent the message and, if the send succeeds, appended to
  \<^verbatim>\<open>active_connections\<close>; a bare \<^verbatim>\<open>except: pass\<close> swallows a failed send. When the
  position has reached the end of the list as it is now, the loop is over and
  \<^verbatim>\<open>websocket_connections[:] = active_connections\<close> writes the list back; the result
  \<open>None\<close> says that the broadcast has finished.
\<close>

definition broadcast_iteration :: "broadcast_task \<Rightarrow> state \<Rightarrow> broadcast_task option \<times> state" where
  "broadcast_iteration t st =
     (if next_index t < length (websocket_connections st)
      then
        (let connection = websocket_connections st ! next_index t in
         case send_json connection (message t) st of
           Inr st' \<Rightarrow>
             (Some (t\<lparr>next_index := next_index t + 1,
                      active_connections := active_connections t @ [connection]\<rparr>), st')
         | Inl e \<Rightarrow> (Some (t\<lparr>next_index := next_index t + 1\<rparr>), st))
      else (None, st\<lparr>websocket_connections := active_connections t\<rparr>))"

text \<open>
  What the other coroutines do to the shared state while one send is awaited is a
  function on states; the loop takes one such function for each of its awaits, in order,
  and nothing else runs once the list of them is used up. The empty list is the broadcast
  during which nothing else runs. The handlers' own changes of the registry are
  \<open>register\<close> and \<open>finally_block\<close> below.
\<close>

type_synonym interference = "state \<Rightarrow> state"

function broadcast_loop :: "interference list \<Rightarrow> broadcast_task \<Rightarrow> state \<Rightarrow> state" where
  "broadcast_loop env t st =
     (case broadcast_iteration t st of
        (None, st') \<Rightarrow> st'
      | (Some t', st') \<Rightarrow>
          (case env of
             [] \<Rightarrow> broadcast_loop [] t' st'
           | other # env' \<Rightarrow> broadcast_loop env' t' (other st')))"
  by pat_completeness auto
termination
  by (relation "measures [\<lambda>(env, t, st). length env,
                          \<lambda>(env, t, st). length (websocket_connections st) - next_index t]")
     (auto simp: broadcast_iteration_def send_json_def Let_def split: if_splits sum.splits)

declare broadcast_loop.simps [simp del]

definition broadcast_config_update :: "interference list \<Rightarrow> state \<Rightarrow> state" where
  "broadcast_config_update env st =
     (if websocket_connections st = [] then st
      else broadcast_loop env
             \<lparr>message = ConfigUpdate (current_robot_config st),
              next_index = 0,
              active_connections = []\<rparr> st)"

section \<open>Setting the configuration\<close>

record ConfigResponse =
  response_success :: bool
  response_robot_config :: RobotConfig
  response_message :: string

text \<open>
  \<^verbatim>\<open>set_robot_config(config)\<close>: the request body has already been parsed into a
  \<^verbatim>\<open>RobotConfig\<close>, whose \<^verbatim>\<open>workspace_bounds\<close> is any dictionary from strings to lists
  of floats. The function assigns the global, awaits the broadcast and answers; the
  answer reads the global again, after the broadcast, and the message uses the argument.
\<close>

definition set_robot_config ::
  "RobotConfig \<Rightarrow> interference list \<Rightarrow> state \<Rightarrow> state \<times> ConfigResponse" where
  "set_robot_config config env st =
     (let st1 = st\<lparr>current_robot_config := config\<rparr>;
          st2 = broadcast_config_update env st1
      in (st2,
          \<lparr>response_success = True,
           response_robot_config = current_robot_config st2,
           response_message = ''Robot configured to '' @ robot_type config\<rparr>))"

section \<open>The WebSocket handler\<close>

datatype conn_status = OPEN | CLOSED

text \<open>What \<^verbatim>\<open>await websocket.receive_json()\<close> gives: a decoded value, or an exception.\<close>

datatype event = Receive json | ReceiveRaises py_exception

text \<open>\<^verbatim>\<open>websocket_connections.append(websocket)\<close>.\<close>

definition register :: "WebSocket \<Rightarrow> state \<Rightarrow> state" where
  "register ws st = st\<lparr>websocket_connections := websocket_connections st @ [ws]\<rparr>"

text \<open>
  The \<^verbatim>\<open>finally\<close> block: \<^verbatim>\<open>list.remove\<close> deletes the first occurrence, and is
  guarded by a membership test.
\<close>

definition finally_block :: "WebSocket \<Rightarrow> state \<Rightarrow> state" where
  "finally_block ws st =
     (if ws \<in> set (websocket_connections st)
      then st\<lparr>websocket_connections := remove1 ws (websocket_connections st)\<rparr>
      else st)"

text \<open>
  The \<^verbatim>\<open>image\<close> branch builds the dictionary handed to the tracking function from
  five lookups in the received message, each with its own default.
\<close>

definition image_tracking_data :: "json \<Rightarrow> py_exception + json" where
  "image_tracking_data data =
     (case py_get data ''data'' (JStr '''') of
        Inl msg \<Rightarrow> Inl (AttributeError msg)
      | Inr image_data \<Rightarrow>
     (case py_get data ''tracking_mode'' (JStr ''mediapipe'') of
        Inl msg \<Rightarrow> Inl (AttributeError msg)
      | Inr tracking_mode \<Rightarrow>
     (case py_get data ''robot_type'' (JStr ''so101'') of
        Inl msg \<Rightarrow> Inl (AttributeError msg)
      | Inr rtype \<Rightarrow>
     (case py_get data ''timestamp'' JNull of
        Inl msg \<Rightarrow> Inl (AttributeError msg)
      | Inr ts \<Rightarrow>
     (case py_get data ''client_timestamp'' JNull of
        Inl msg \<Rightarrow> Inl (AttributeError msg)
      | Inr client_ts \<Rightarrow>
          Inr (JObj [(''image'', image_data),
                     (''tracking_mode'', tracking_mode),
                     (''robot_type'', rtype),
                     (''timestamp'', ts),
                     (''client_timestamp'', client_ts)]))))))"

text \<open>
  One pass through the body of \<^verbatim>\<open>while True\<close> after a value has been received.
  \<open>Inl\<close> is an exception that leaves the loop.
\<close>

definition loop_body :: "WebSocket \<Rightarrow> datetime \<Rightarrow> json \<Rightarrow> state \<Rightarrow> py_exception + state" where
  "loop_body ws now data st =
     (case py_get data ''type'' JNull of
        Inl msg \<Rightarrow> Inl (AttributeError msg)
      | Inr ty \<Rightarrow>
          if ty = JStr ''ping'' then send_json ws Pong st
          else if ty = JStr ''track'' then
            (case py_get data ''data'' (JObj []) of
               Inl msg \<Rightarrow> Inl (AttributeError msg)
             | Inr payload \<Rightarrow>
                 (case process_hand_tracking (current_robot_config st) now payload of
                    Inl e \<Rightarrow> Inl e
                  | Inr result \<Rightarrow> send_json ws (TrackingResultMsg result) st))
          else if ty = JStr ''image'' then
            (case image_tracking_data data of
               Inl e \<Rightarrow> Inl e
             | Inr tracking_data \<Rightarrow>
                 (case process_hand_tracking (current_robot_config st) now tracking_data of
                    Inl e \<Rightarrow> Inl e
                  | Inr result \<Rightarrow> send_json ws (TrackingResultMsg result) st))
          else Inr st)"

text \<open>
  One iteration of the handler: receive, run the body; any exception (a disconnect
  or anything else) ends the loop and runs the \<^verbatim>\<open>finally\<close> block.
\<close>

definition handler_step :: "WebSocket \<Rightarrow> datetime \<Rightarrow> event \<Rightarrow> state \<Rightarrow> conn_status \<times> state" where
  "handler_step ws now ev st =
     (case ev of
        ReceiveRaises e \<Rightarrow> (CLOSED, finally_block ws st)
      | Receive data \<Rightarrow>
          (case loop_body ws now data st of
             Inl e \<Rightarrow> (CLOSED, finally_block ws st)
           | Inr st' \<Rightarrow> (OPEN, st')))"


subsection \<open>Starting states\<close>

text \<open>
  The globals as the module initialises them, on a network given by which connections
  accept a send; nothing has been sent yet.
\<close>

definition no_messages :: "WebSocket \<Rightarrow> ws_message list" where
  "no_messages ws = []"

definition initial_state :: "(WebSocket \<Rightarrow> bool) \<Rightarrow> state" where
  "initial_state net =
     \<lparr>active_sessions = Map.empty,
      websocket_connections = [],
      current_robot_config = default_RobotConfig,
      link_up = net,
      outbox = no_messages\<rparr>"

text \<open>A network on which every send succeeds, and one on which exactly one connection fails.\<close>

definition healthy_network :: "WebSocket \<Rightarrow> bool" where
  "healthy_network ws = True"

definition all_but :: "WebSocket \<Rightarrow> WebSocket \<Rightarrow> bool" where
  "all_but k ws = (ws \<noteq> k)"

text \<open>
  A request body the parser accepts (a dictionary from strings to lists of floats)
  whose x axis has its minimum above its maximum.
\<close>

definition inverted_bounds_config :: RobotConfig where
  "inverted_bounds_config =
     \<lparr>robot_type = ''KOCH'',
      end_effector = ''gripper'',
      workspace_bounds = [(''x'', [1, 0]), (''y'', [0, 1]), (''z'', [0, 1])]\<rparr>"

section \<open>Coroutines taking turns\<close>







section \<open>The validity condition the specification states for workspace bounds\<close>

text \<open>
  The specification's condition on \<^verbatim>\<open>workspace_bounds\<close>, written from its words:
  exactly the axes x, y and z, each a two-element list whose first element is at most
  its second. The source has no counterpart of it; it is defined here only to say
  which configurations the specification calls invalid.
\<close>

definition spec_valid_axis :: "real list \<Rightarrow> bool" where
  "spec_valid_axis v = (case v of [lo, hi] \<Rightarrow> lo \<le> hi | _ \<Rightarrow> False)"

definition spec_valid_workspace_bounds :: "(string \<times> real list) list \<Rightarrow> bool" where
  "spec_valid_workspace_bounds wb =
     (set (map fst wb) = {''x'', ''y'', ''z''} \<and>
      list_all (\<lambda>k. case map_of wb k of Some v \<Rightarrow> spec_valid_axis v | None \<Rightarrow> False)
        [''x'', ''y'', ''z''])"

section \<open>The session manager\<close>

text \<open>
  Modelled from the spec: the Session Manager operation \<^verbatim>\<open>activate(session_id, config)\<close>.
  The source declares the class \<^verbatim>\<open>TrackingSession\<close> and the dictionary
  \<^verbatim>\<open>active_sessions\<close> but has no function that writes to the dictionary. Following the
  specification: an unseen id gets a session with \<open>active = False\<close> and no start time;
  the first activation (the session has no start time yet) sets \<open>active\<close> and the start
  time; a later one leaves the start time as it is; the stored configuration is always
  replaced by the given one; the resulting session is returned.
\<close>

definition activate ::
  "string \<Rightarrow> RobotConfig \<Rightarrow> datetime \<Rightarrow> (string \<rightharpoonup> TrackingSession) \<Rightarrow>
   TrackingSession \<times> (string \<rightharpoonup> TrackingSession)" where
  "activate sid config now sessions =
     (let s0 = (case sessions sid of
                  None \<Rightarrow> \<lparr>session_id = sid, robot_config = config,
                            active = False, start_time = None\<rparr>
                | Some s \<Rightarrow> s);
          s1 = (if start_time s0 = None
                then s0\<lparr>active := True, start_time := Some now\<rparr>
                else s0\<lparr>active := True\<rparr>);
          s2 = s1\<lparr>robot_config := config\<rparr>
      in (s2, sessions(sid \<mapsto> s2)))"

text \<open>
  Modelled from the spec: the Session Manager operation \<^verbatim>\<open>deactivate(session_id)\<close>,
  absent from the source: it clears \<open>active\<close>, keeps the start time, and does nothing
  for an unknown id.
\<close>

definition deactivate ::
  "string \<Rightarrow> (string \<rightharpoonup> TrackingSession) \<Rightarrow> (string \<rightharpoonup> TrackingSession)" where
  "deactivate sid sessions =
     (case sessions sid of
        None \<Rightarrow> sessions
      | Some s \<Rightarrow> sessions(sid \<mapsto> s\<lparr>active := False\<rparr>))"

text \<open>
  Modelled from the spec: the operations a caller can apply to the Session Manager,
  and the manager's state after a sequence of them, starting from the empty dictionary
  the source initialises \<^verbatim>\<open>active_sessions\<close> with.
\<close>

datatype session_op = Activate string RobotConfig datetime | Deactivate string

fun apply_session_op ::
  "session_op \<Rightarrow> (string \<rightharpoonup> TrackingSession) \<Rightarrow> (string \<rightharpoonup> TrackingSession)" where
  "apply_session_op (Activate sid config now) sessions = snd (activate sid config now sessions)"
| "apply_session_op (Deactivate sid) sessions = deactivate sid sessions"

fun run_session_ops ::
  "session_op list \<Rightarrow> (string \<rightharpoonup> TrackingSession) \<Rightarrow> (string \<rightharpoonup> TrackingSession)" where
  "run_session_ops [] sessions = sessions"
| "run_session_ops (op # ops) sessions = run_session_ops ops (apply_session_op op sessions)"

fun ever_activated :: "string \<Rightarrow> session_op list \<Rightarrow> bool" where
  "ever_activated sid [] = False"
| "ever_activated sid (Activate sid' config now # ops) = (sid = sid' \<or> ever_activated sid ops)"
| "ever_activated sid (Deactivate sid' # ops) = ever_activated sid ops"

text \<open>The start time the manager holds for an id: none when the id has no session.\<close>

definition start_time_of :: "string \<Rightarrow> (string \<rightharpoonup> TrackingSession) \<Rightarrow> datetime option" where
  "start_time_of sid sessions =
     (case sessions sid of None \<Rightarrow> None | Some s \<Rightarrow> start_time s)"

section \<open>Properties of the broadcast loop\<close>

text \<open>The two cases of one iteration.\<close>

lemma broadcast_loop_done:
  "\<not> next_index t < length (websocket_connections st) \<Longrightarrow>
     broadcast_loop env t st = st\<lparr>websocket_connections := active_connections t\<rparr>"
  by (subst broadcast_loop.simps) (simp add: broadcast_iteration_def)

lemma broadcast_loop_quiet_step:
  "next_index t < length (websocket_connections st) \<Longrightarrow>
     broadcast_loop [] t st =
       (if link_up st (websocket_connections st ! next_index t)
        then broadcast_loop []
               (t\<lparr>next_index := next_index t + 1,
                  active_connections :=
                    active_connections t @ [websocket_connections st ! next_index t]\<rparr>)
               (st\<lparr>outbox := (outbox st)
                     (websocket_connections st ! next_index t :=
                        outbox st (websocket_connections st ! next_index t) @ [message t])\<rparr>)
        else broadcast_loop [] (t\<lparr>next_index := next_index t + 1\<rparr>) st)"
  by (subst broadcast_loop.simps) (simp add: broadcast_iteration_def send_json_def Let_def)

lemma broadcast_loop_step:
  "next_index t < length (websocket_connections st) \<Longrightarrow>
     broadcast_loop (other # env) t st =
       (if link_up st (websocket_connections st ! next_index t)
        then broadcast_loop env
               (t\<lparr>next_index := next_index t + 1,
                  active_connections :=
                    active_connections t @ [websocket_connections st ! next_index t]\<rparr>)
               (other (st\<lparr>outbox := (outbox st)
                     (websocket_connections st ! next_index t :=
                        outbox st (websocket_connections st ! next_index t) @ [message t])\<rparr>))
        else broadcast_loop env (t\<lparr>next_index := next_index t + 1\<rparr>) (other st))"
  by (subst broadcast_loop.simps) (simp add: broadcast_iteration_def send_json_def Let_def)

text \<open>
  The broadcast during which nothing else runs: it keeps, in order, the connections from
  the iterator's position on whose send succeeds, delivers the message once for every
  occurrence of a live connection, and touches nothing else.
\<close>

lemma broadcast_loop_quiet:
  "broadcast_loop [] t st =
     st\<lparr>websocket_connections :=
           active_connections t @
           filter (link_up st) (drop (next_index t) (websocket_connections st)),
        outbox := (\<lambda>h. outbox st h @
           replicate (if link_up st h
                      then count_list (drop (next_index t) (websocket_connections st)) h
                      else 0) (message t))\<rparr>"
proof (induction "length (websocket_connections st) - next_index t" arbitrary: t st)
  case 0
  then have "\<not> next_index t < length (websocket_connections st)"
    by simp
  then show ?case
    by (auto simp: broadcast_loop_done not_less intro!: state.equality)
next
  case (Suc n)
  then have lt: "next_index t < length (websocket_connections st)"
    by simp
  let ?c = "websocket_connections st ! next_index t"
  have dr: "drop (next_index t) (websocket_connections st) =
            ?c # drop (Suc (next_index t)) (websocket_connections st)"
    using lt by (simp add: Cons_nth_drop_Suc)
  show ?case
  proof (cases "link_up st ?c")
    case True
    let ?t' = "t\<lparr>next_index := next_index t + 1,
                  active_connections := active_connections t @ [?c]\<rparr>"
    let ?st' = "st\<lparr>outbox := (outbox st)(?c := outbox st ?c @ [message t])\<rparr>"
    have n: "n = length (websocket_connections ?st') - next_index ?t'"
      using Suc.hyps(2) by simp
    have "broadcast_loop [] t st = broadcast_loop [] ?t' ?st'"
      using lt True by (simp add: broadcast_loop_quiet_step)
    also note Suc.hyps(1) [OF n]
    finally show ?thesis
      using True by (auto simp: dr fun_eq_iff replicate_append_same intro!: state.equality)
  next
    case False
    let ?t' = "t\<lparr>next_index := next_index t + 1\<rparr>"
    have n: "n = length (websocket_connections st) - next_index ?t'"
      using Suc.hyps(2) by simp
    have "broadcast_loop [] t st = broadcast_loop [] ?t' st"
      using lt False by (simp add: broadcast_loop_quiet_step)
    also note Suc.hyps(1) [OF n]
    finally show ?thesis
      using False by (auto simp: dr fun_eq_iff intro!: state.equality)
  qed
qed

lemma broadcast_quiet:
  "broadcast_config_update [] st =
     st\<lparr>websocket_connections := filter (link_up st) (websocket_connections st),
        outbox := (\<lambda>h. outbox st h @
           replicate (if link_up st h then count_list (websocket_connections st) h else 0)
             (ConfigUpdate (current_robot_config st)))\<rparr>"
  by (auto simp: broadcast_config_update_def broadcast_loop_quiet fun_eq_iff
           intro!: state.equality)

lemma broadcast_registry:
  "websocket_connections (broadcast_config_update [] st) =
     filter (link_up st) (websocket_connections st)"
  by (simp add: broadcast_quiet)

lemma broadcast_outbox:
  "outbox (broadcast_config_update [] st) h =
     outbox st h @ replicate (if link_up st h then count_list (websocket_connections st) h else 0)
                     (ConfigUpdate (current_robot_config st))"
  by (simp add: broadcast_quiet)

lemma broadcast_config:
  "current_robot_config (broadcast_config_update [] st) = current_robot_config st"
  by (simp add: broadcast_quiet)

lemma count_list_pos: "h \<in> set xs \<Longrightarrow> 0 < count_list xs h"
  using count_list_0_iff [of xs h] by simp

text \<open>
  A broadcast during which nothing else runs, with exactly one registered connection
  \<open>k\<close> whose send fails: every other registered connection is sent the message once
  per entry and stays registered, and \<open>k\<close> is dropped.
\<close>

lemma broadcast_isolation_undisturbed:
  assumes "k \<in> set (websocket_connections st)"
    and "\<not> link_up st k"
    and "\<forall>h \<in> set (websocket_connections st). h \<noteq> k \<longrightarrow> link_up st h"
  shows "(\<forall>h \<in> set (websocket_connections st). h \<noteq> k \<longrightarrow>
            outbox (broadcast_config_update [] st) h =
              outbox st h @ replicate (count_list (websocket_connections st) h)
                              (ConfigUpdate (current_robot_config st)) \<and>
            0 < count_list (websocket_connections st) h \<and>
            h \<in> set (websocket_connections (broadcast_config_update [] st))) \<and>
         k \<notin> set (websocket_connections (broadcast_config_update [] st)) \<and>
         outbox (broadcast_config_update [] st) k = outbox st k \<and>
         websocket_connections (broadcast_config_update [] st) =
           removeAll k (websocket_connections st)"
proof -
  have flt: "filter (link_up st) (websocket_connections st) =
             removeAll k (websocket_connections st)"
    using assms by (auto simp: removeAll_filter_not_eq intro!: filter_cong)
  have cnt: "\<And>h. h \<in> set (websocket_connections st) \<Longrightarrow>
               0 < count_list (websocket_connections st) h"
    by (rule count_list_pos)
  show ?thesis
    using assms cnt by (simp add: broadcast_registry broadcast_outbox flt)
qed

text \<open>
  Whatever runs during the awaits, the loop itself never assigns the configuration: if
  none of the other coroutines does, it is unchanged when the broadcast returns.
\<close>

lemma broadcast_iteration_visit:
  "next_index t < length (websocket_connections st) \<Longrightarrow>
     \<exists>t' st'. broadcast_iteration t st = (Some t', st') \<and>
             current_robot_config st' = current_robot_config st"
  by (cases "link_up st (websocket_connections st ! next_index t)")
     (simp_all add: broadcast_iteration_def send_json_def Let_def)

lemma broadcast_loop_config:
  "\<forall>f \<in> set env. \<forall>s. current_robot_config (f s) = current_robot_config s \<Longrightarrow>
     current_robot_config (broadcast_loop env t st) = current_robot_config st"
proof (induction env t st rule: broadcast_loop.induct)
  case (1 env t st)
  show ?case
  proof (cases "next_index t < length (websocket_connections st)")
    case False
    then show ?thesis
      by (simp add: broadcast_loop_done)
  next
    case True
    obtain t' st' where it: "broadcast_iteration t st = (Some t', st')"
      and cfg: "current_robot_config st' = current_robot_config st"
      using True broadcast_iteration_visit by blast
    show ?thesis
    proof (cases env)
      case Nil
      with it cfg "1.IH"(1) [of "Some t'" st' t'] show ?thesis
        by (subst broadcast_loop.simps) simp
    next
      case (Cons other env')
      with it cfg "1.prems" "1.IH"(2) [of "Some t'" st' t' other env']
      show ?thesis
        by (subst broadcast_loop.simps) simp
    qed
  qed
qed

lemma broadcast_config_any:
  "\<forall>f \<in> set env. \<forall>s. current_robot_config (f s) = current_robot_config s \<Longrightarrow>
     current_robot_config (broadcast_config_update env st) = current_robot_config st"
  by (simp add: broadcast_config_update_def broadcast_loop_config)







section \<open>Broadcast: membership and isolation\<close>




text \<open>
  Claim C2: among the registered connections exactly one fails delivery, and the
  broadcast is to reach every other one and keep it registered. On the code it does not
  always. Connections 1 and 2 are registered, the send to 1 fails and 2 is healthy. While the broadcast awaits its send to 1, the handler of 1 runs its
  \<^verbatim>\<open>finally\<close> block and removes 1 from the list. The list now has one element and the
  iterator stands at position 1, so the loop ends without visiting 2: connection 2 is
  sent nothing, and the list written back is empty, so 2 is no longer registered.
\<close>

theorem broadcast_skips_healthy_connection:
  "websocket_connections (register 2 (register 1 (initial_state (all_but 1)))) = [1, 2] \<and>
   \<not> link_up (register 2 (register 1 (initial_state (all_but 1)))) 1 \<and>
   link_up (register 2 (register 1 (initial_state (all_but 1)))) 2 \<and>
   outbox (broadcast_config_update [finally_block 1]
             (register 2 (register 1 (initial_state (all_but 1))))) 2 = [] \<and>
   websocket_connections
     (broadcast_config_update [finally_block 1]
        (register 2 (register 1 (initial_state (all_but 1))))) = []"
  by (simp add: broadcast_config_update_def broadcast_loop_step broadcast_loop_quiet
                finally_block_def register_def initial_state_def all_but_def no_messages_def)

section \<open>The tracking endpoint: results\<close>

lemma process_hand_tracking_dict:
  "process_hand_tracking cfg now (JObj d) =
     Inr \<lparr>success = True,
          timestamp = now,
          hand_detected = (map_of d ''image'' \<noteq> None \<and> map_of d ''image'' \<noteq> Some (JStr '''')),
          fingertips = (if map_of d ''image'' \<noteq> None \<and> map_of d ''image'' \<noteq> Some (JStr '''')
                        then detected_fingertips else empty_FingertipData),
          robot_control = (if map_of d ''image'' \<noteq> None \<and> map_of d ''image'' \<noteq> Some (JStr '''')
                           then detected_control else idle_control),
          result_robot_type = robot_type cfg,
          processing_time_ms = 16.7\<rparr>"
  by (cases "map_of d ''image''") (simp_all add: process_hand_tracking_def Let_def)

lemma process_hand_tracking_Inr:
  "process_hand_tracking cfg now data = Inr r \<Longrightarrow> \<exists>d. data = JObj d"
  by (cases data) (simp_all add: process_hand_tracking_def)

lemma process_hand_tracking_raises:
  "\<forall>d. data \<noteq> JObj d \<Longrightarrow>
     process_hand_tracking cfg now data =
       Inl (HTTPException 500
              (''Tracking error: '' @ [CHR 0x27] @ py_type_name data @ [CHR 0x27] @
               '' object has no attribute '' @ [CHR 0x27] @ ''get'' @ [CHR 0x27]))"
  by (cases data) (simp_all add: process_hand_tracking_def)

text \<open>
  Claim C5, as stated: every frame payload whose image is empty or absent gives the
  no-detection result. The test of the source is inequality with the empty string, so an
  image entry holding an empty list, or \<^verbatim>\<open>null\<close>, is reported as a detected hand with
  confidence 0.94.
\<close>

theorem empty_image_counterexample:
  "hand_detected (projr (process_hand_tracking default_RobotConfig 0
        (JObj [(''image'', JArr [])]))) \<and>
   confidence (robot_control (projr (process_hand_tracking default_RobotConfig 0
        (JObj [(''image'', JArr [])])))) = 0.94 \<and>
   in_workspace (robot_control (projr (process_hand_tracking default_RobotConfig 0
        (JObj [(''image'', JArr [])])))) \<and>
   hand_detected (projr (process_hand_tracking default_RobotConfig 0
        (JObj [(''image'', JNull)])))"
  by (simp add: process_hand_tracking_dict detected_control_def)

text \<open>
  Claim C5, amended. A frame payload that is a JSON object whose image entry is absent
  or is the empty string gives a result with no hand detected, six joint angles all
  zero, confidence zero and \<open>in_workspace\<close> false. An image entry holding any other
  value is reported as a detected hand, with confidence 0.94 and \<open>in_workspace\<close> true.
  A payload that is not a JSON object gives no result: the function raises.
\<close>

theorem no_detection_for_absent_or_empty_string:
  "(map_of d ''image'' = None \<or> map_of d ''image'' = Some (JStr '''') \<longrightarrow>
      (\<exists>r. process_hand_tracking cfg now (JObj d) = Inr r \<and>
           \<not> hand_detected r \<and>
           joint_angles (robot_control r) = [0, 0, 0, 0, 0, 0] \<and>
           (\<forall>a \<in> set (joint_angles (robot_control r)). a = 0) \<and>
           confidence (robot_control r) = 0 \<and>
           \<not> in_workspace (robot_control r))) \<and>
   (map_of d ''image'' = Some v \<and> v \<noteq> JStr '''' \<longrightarrow>
      (\<exists>r. process_hand_tracking cfg now (JObj d) = Inr r \<and>
           hand_detected r \<and>
           confidence (robot_control r) = 0.94 \<and>
           in_workspace (robot_control r))) \<and>
   ((\<forall>d'. payload \<noteq> JObj d') \<longrightarrow>
      (\<exists>e. process_hand_tracking cfg now payload = Inl e))"
proof -
  have a: "\<exists>r. process_hand_tracking cfg now (JObj d) = Inr r \<and>
           \<not> hand_detected r \<and>
           joint_angles (robot_control r) = [0, 0, 0, 0, 0, 0] \<and>
           (\<forall>a \<in> set (joint_angles (robot_control r)). a = 0) \<and>
           confidence (robot_control r) = 0 \<and>
           \<not> in_workspace (robot_control r)"
    if "map_of d ''image'' = None \<or> map_of d ''image'' = Some (JStr '''')"
    using that by (auto simp: process_hand_tracking_dict idle_control_def)
  have b: "\<exists>r. process_hand_tracking cfg now (JObj d) = Inr r \<and>
           hand_detected r \<and>
           confidence (robot_control r) = 0.94 \<and>
           in_workspace (robot_control r)"
    if "map_of d ''image'' = Some v \<and> v \<noteq> JStr ''''"
    using that by (auto simp: process_hand_tracking_dict detected_control_def)
  have c: "\<exists>e. process_hand_tracking cfg now payload = Inl e"
    if "\<forall>d'. payload \<noteq> JObj d'"
    using that by (simp add: process_hand_tracking_raises)
  from a b c show ?thesis by blast
qed

theorem no_detection_for_absent_or_empty_string_witness:
  "\<not> hand_detected (projr (process_hand_tracking default_RobotConfig 0
        (JObj [(''image'', JStr ''''), (''robot_type'', JStr ''KOCH'')]))) \<and>
   confidence (robot_control (projr (process_hand_tracking default_RobotConfig 0
        (JObj [(''image'', JStr ''''), (''robot_type'', JStr ''KOCH'')])))) = 0 \<and>
   \<not> hand_detected (projr (process_hand_tracking default_RobotConfig 0 (JObj [])))"
proof -
  have h1: "map_of [(''image'', JStr ''''), (''robot_type'', JStr ''KOCH'')] ''image'' = None \<or>
            map_of [(''image'', JStr ''''), (''robot_type'', JStr ''KOCH'')] ''image''
              = Some (JStr '''')"
    by simp
  have h2: "map_of ([] :: (string \<times> json) list) ''image'' = None \<or>
            map_of ([] :: (string \<times> json) list) ''image'' = Some (JStr '''')"
    by simp
  from no_detection_for_absent_or_empty_string
         [of "[(''image'', JStr ''''), (''robot_type'', JStr ''KOCH'')]"
             default_RobotConfig 0 JNull JNull] h1
  obtain r1 where
    "process_hand_tracking default_RobotConfig 0
       (JObj [(''image'', JStr ''''), (''robot_type'', JStr ''KOCH'')]) = Inr r1"
    "\<not> hand_detected r1" "confidence (robot_control r1) = 0"
    by blast
  moreover from no_detection_for_absent_or_empty_string
         [of "[]" default_RobotConfig 0 JNull JNull] h2
  obtain r2 where
    "process_hand_tracking default_RobotConfig 0 (JObj []) = Inr r2" "\<not> hand_detected r2"
    by blast
  ultimately show ?thesis by simp
qed

text \<open>
  Claim C8, as stated: confidence and processing time are the same for every frame
  payload. The confidence is not: it is 0.94 for a payload with an image and 0 for one
  without.
\<close>

theorem fixed_confidence_counterexample:
  "confidence (robot_control (projr (process_hand_tracking default_RobotConfig 0
        (JObj [(''image'', JStr ''frame'')])))) \<noteq>
   confidence (robot_control (projr (process_hand_tracking default_RobotConfig 0
        (JObj [(''image'', JStr '''')]))))"
  by (simp add: process_hand_tracking_dict detected_control_def idle_control_def)

text \<open>
  Claim C8, amended. The processing time reported is 16.7 for every frame payload; the
  confidence takes one of two fixed values, 0.94 when a hand is reported detected and 0
  when not, so it depends on the payload only through the presence of an image.
\<close>

theorem fixed_timing_two_valued_confidence:
  "(\<exists>r. process_hand_tracking cfg now (JObj d) = Inr r \<and>
        processing_time_ms r = 16.7 \<and>
        hand_detected r = (map_of d ''image'' \<noteq> None \<and> map_of d ''image'' \<noteq> Some (JStr '''')) \<and>
        confidence (robot_control r) = (if hand_detected r then 0.94 else 0)) \<and>
   (\<forall>data r. process_hand_tracking cfg now data = Inr r \<longrightarrow>
        processing_time_ms r = 16.7 \<and>
        confidence (robot_control r) = (if hand_detected r then 0.94 else 0))"
proof -
  have "processing_time_ms r = 16.7 \<and>
        confidence (robot_control r) = (if hand_detected r then 0.94 else 0)"
    if "process_hand_tracking cfg now data = Inr r" for data r
  proof -
    from that obtain d' where "data = JObj d'"
      using process_hand_tracking_Inr by blast
    with that show ?thesis
      by (auto simp: process_hand_tracking_dict detected_control_def idle_control_def)
  qed
  then show ?thesis
    by (simp add: process_hand_tracking_dict detected_control_def idle_control_def)
qed

theorem fixed_timing_two_valued_confidence_witness:
  "processing_time_ms (projr (process_hand_tracking default_RobotConfig 0
        (JObj [(''image'', JStr ''frame'')]))) = 16.7 \<and>
   confidence (robot_control (projr (process_hand_tracking default_RobotConfig 0
        (JObj [(''image'', JStr ''frame'')])))) = 0.94"
  using fixed_timing_two_valued_confidence
    [of default_RobotConfig 0 "[(''image'', JStr ''frame'')]"]
  by auto

text \<open>
  Claim C4, as stated: for a track request with a non-empty image the joint-angle
  sequence is as long as the degree-of-freedom count the catalog lists for the configured
  robot. With the robot configured to KOCH the catalog lists 7 and the result has 6
  angles.
\<close>

theorem joint_angles_match_dof_counterexample:
  "catalog_dof ''KOCH'' = Some 7 \<and>
   hand_detected (projr (process_hand_tracking
        \<lparr>robot_type = ''KOCH'', end_effector = ''gripper'', workspace_bounds = []\<rparr> 0
        (JObj [(''image'', JStr ''frame'')]))) \<and>
   length (joint_angles (robot_control (projr (process_hand_tracking
        \<lparr>robot_type = ''KOCH'', end_effector = ''gripper'', workspace_bounds = []\<rparr> 0
        (JObj [(''image'', JStr ''frame'')]))))) = 6"
  by (simp add: process_hand_tracking_dict detected_control_def catalog_dof_def
                get_available_robots_def)

text \<open>
  Claim C4, amended. For a track request whose payload carries an image other than the
  empty string, the result reports a detected hand and the same six joint angles whatever
  robot is configured; six is the catalog's degree-of-freedom count when the configured
  robot is SO-101 or SO-100. Sent over an open connection whose send succeeds, the
  request is answered with one \<^verbatim>\<open>tracking_result\<close> message carrying that result.
\<close>

theorem joint_angles_fixed_length:
  assumes "map_of d ''image'' = Some v" and "v \<noteq> JStr ''''"
  shows "\<exists>r. process_hand_tracking cfg now (JObj d) = Inr r \<and>
             hand_detected r \<and>
             joint_angles (robot_control r) = [45.2, -30.5, 60.1, 15.0, -45.0, 90.0] \<and>
             length (joint_angles (robot_control r)) = 6 \<and>
             (robot_type cfg = ''SO-101'' \<or> robot_type cfg = ''SO-100'' \<longrightarrow>
                catalog_dof (robot_type cfg) = Some (length (joint_angles (robot_control r)))) \<and>
             (map_of m ''type'' = Some (JStr ''track'') \<and> map_of m ''data'' = Some (JObj d) \<and>
              current_robot_config st = cfg \<and> link_up st ws \<longrightarrow>
                handler_step ws now (Receive (JObj m)) st =
                  (OPEN, st\<lparr>outbox := (outbox st)(ws := outbox st ws @ [TrackingResultMsg r])\<rparr>))"
  using assms
  by (auto simp: process_hand_tracking_dict detected_control_def catalog_dof_def
                 get_available_robots_def handler_step_def loop_body_def send_json_def)

theorem joint_angles_fixed_length_witness:
  "length (joint_angles (robot_control (projr (process_hand_tracking default_RobotConfig 0
        (JObj [(''image'', JStr ''frame'')]))))) = 6 \<and>
   catalog_dof (robot_type default_RobotConfig) = Some 6 \<and>
   fst (handler_step 1 0
          (Receive (JObj [(''type'', JStr ''track''),
                          (''data'', JObj [(''image'', JStr ''frame'')])]))
          (register 1 (initial_state healthy_network))) = OPEN"
proof -
  have img: "map_of [(''image'', JStr ''frame'')] ''image'' = Some (JStr ''frame'')"
    by simp
  have ne: "JStr ''frame'' \<noteq> JStr ''''"
    by simp
  obtain r where
    r: "process_hand_tracking default_RobotConfig 0 (JObj [(''image'', JStr ''frame'')]) = Inr r"
    and len: "length (joint_angles (robot_control r)) = 6"
    and cat: "robot_type default_RobotConfig = ''SO-101'' \<or>
              robot_type default_RobotConfig = ''SO-100'' \<longrightarrow>
              catalog_dof (robot_type default_RobotConfig) =
                Some (length (joint_angles (robot_control r)))"
    and step: "map_of [(''type'', JStr ''track''),
                       (''data'', JObj [(''image'', JStr ''frame'')])] ''type''
                 = Some (JStr ''track'') \<and>
               map_of [(''type'', JStr ''track''),
                       (''data'', JObj [(''image'', JStr ''frame'')])] ''data''
                 = Some (JObj [(''image'', JStr ''frame'')]) \<and>
               current_robot_config (register 1 (initial_state healthy_network))
                 = default_RobotConfig \<and>
               link_up (register 1 (initial_state healthy_network)) 1 \<longrightarrow>
               handler_step 1 0
                 (Receive (JObj [(''type'', JStr ''track''),
                                 (''data'', JObj [(''image'', JStr ''frame'')])]))
                 (register 1 (initial_state healthy_network)) =
               (OPEN, (register 1 (initial_state healthy_network))
                  \<lparr>outbox := (outbox (register 1 (initial_state healthy_network)))
                     (1 := outbox (register 1 (initial_state healthy_network)) 1
                           @ [TrackingResultMsg r])\<rparr>)"
    using joint_angles_fixed_length
      [OF img ne, of default_RobotConfig 0
         "[(''type'', JStr ''track''), (''data'', JObj [(''image'', JStr ''frame'')])]"
         "register 1 (initial_state healthy_network)" 1]
    by blast
  have pre: "current_robot_config (register 1 (initial_state healthy_network))
               = default_RobotConfig \<and>
             link_up (register 1 (initial_state healthy_network)) 1"
    by (simp add: register_def initial_state_def healthy_network_def)
  from step pre have "fst (handler_step 1 0
          (Receive (JObj [(''type'', JStr ''track''),
                          (''data'', JObj [(''image'', JStr ''frame'')])]))
          (register 1 (initial_state healthy_network))) = OPEN"
    by simp
  moreover from cat len have "catalog_dof (robot_type default_RobotConfig) = Some 6"
    by (simp add: default_RobotConfig_def)
  ultimately show ?thesis using r len by simp
qed

section \<open>The handler and the tracking function\<close>

lemma process_hand_tracking_robot_type:
  "process_hand_tracking cfg now data = Inr r \<Longrightarrow> result_robot_type r = robot_type cfg"
  by (cases data) (auto simp: process_hand_tracking_def Let_def)

lemma process_hand_tracking_fails_iff:
  "(\<exists>e. process_hand_tracking cfg now payload = Inl e) \<longleftrightarrow> (\<forall>d. payload \<noteq> JObj d)"
  by (cases payload) (simp_all add: process_hand_tracking_def Let_def)

lemma py_get_Inr: "py_get data k dflt = Inr v \<Longrightarrow> \<exists>m. data = JObj m"
  by (cases data) simp_all

lemma image_tracking_data_dict:
  "\<exists>d. image_tracking_data (JObj m) = Inr (JObj d) \<and>
       map_of d ''image'' = Some (case map_of m ''data'' of None \<Rightarrow> JStr '''' | Some v \<Rightarrow> v)"
  by (simp add: image_tracking_data_def)

text \<open>
  Claim C9. The \<open>robot_type\<close> of every tracking result is the one of the stored
  configuration, whatever the payload says: for every payload the function answers
  (every JSON object), and for every track or image message the handler answers, whose
  reply is one \<^verbatim>\<open>tracking_result\<close> message carrying such a result. An image message
  on a live connection is always answered.
\<close>

theorem result_robot_type_is_configured:
  "(\<exists>r. process_hand_tracking cfg now (JObj d) = Inr r \<and>
        result_robot_type r = robot_type cfg) \<and>
   (\<forall>data r. process_hand_tracking cfg now data = Inr r \<longrightarrow>
        result_robot_type r = robot_type cfg) \<and>
   (\<forall>data ty st'.
        py_get data ''type'' JNull = Inr ty \<and> (ty = JStr ''track'' \<or> ty = JStr ''image'') \<and>
        loop_body ws now data st = Inr st' \<longrightarrow>
        (\<exists>r. st' = st\<lparr>outbox := (outbox st)(ws := outbox st ws @ [TrackingResultMsg r])\<rparr> \<and>
             result_robot_type r = robot_type (current_robot_config st))) \<and>
   (map_of m ''type'' = Some (JStr ''image'') \<and> link_up st ws \<longrightarrow>
        (\<exists>r. loop_body ws now (JObj m) st =
               Inr (st\<lparr>outbox := (outbox st)(ws := outbox st ws @ [TrackingResultMsg r])\<rparr>) \<and>
             result_robot_type r = robot_type (current_robot_config st)))"
proof -
  have a: "\<exists>r. process_hand_tracking cfg now (JObj d) = Inr r \<and>
               result_robot_type r = robot_type cfg"
    by (simp add: process_hand_tracking_dict)
  have b: "\<forall>data r. process_hand_tracking cfg now data = Inr r \<longrightarrow>
               result_robot_type r = robot_type cfg"
    by (simp add: process_hand_tracking_robot_type)
  have c: "\<exists>r. st' = st\<lparr>outbox := (outbox st)(ws := outbox st ws @ [TrackingResultMsg r])\<rparr> \<and>
               result_robot_type r = robot_type (current_robot_config st)"
    if ty: "py_get data ''type'' JNull = Inr ty"
      and kind: "ty = JStr ''track'' \<or> ty = JStr ''image''"
      and run: "loop_body ws now data st = Inr st'" for data ty st'
  proof -
    from ty kind run show ?thesis
      by (auto simp: loop_body_def send_json_def
               dest: process_hand_tracking_robot_type
               split: sum.splits if_splits)
  qed
  have e: "\<exists>r. loop_body ws now (JObj m) st =
               Inr (st\<lparr>outbox := (outbox st)(ws := outbox st ws @ [TrackingResultMsg r])\<rparr>) \<and>
             result_robot_type r = robot_type (current_robot_config st)"
    if "map_of m ''type'' = Some (JStr ''image'')" and "link_up st ws"
  proof -
    obtain d' where d': "image_tracking_data (JObj m) = Inr (JObj d')"
      using image_tracking_data_dict by blast
    obtain r where r: "process_hand_tracking (current_robot_config st) now (JObj d') = Inr r"
      and rt: "result_robot_type r = robot_type (current_robot_config st)"
      by (simp add: process_hand_tracking_dict)
    from that d' r have "loop_body ws now (JObj m) st =
        Inr (st\<lparr>outbox := (outbox st)(ws := outbox st ws @ [TrackingResultMsg r])\<rparr>)"
      by (simp add: loop_body_def send_json_def)
    with rt show ?thesis by blast
  qed
  from a b c e show ?thesis by blast
qed

theorem result_robot_type_is_configured_witness:
  "result_robot_type (projr (process_hand_tracking default_RobotConfig 0
        (JObj [(''image'', JStr ''frame''), (''robot_type'', JStr ''KOCH'')]))) = ''SO-101''"
proof -
  obtain r where
    "process_hand_tracking default_RobotConfig 0
        (JObj [(''image'', JStr ''frame''), (''robot_type'', JStr ''KOCH'')]) = Inr r"
    and "result_robot_type r = robot_type default_RobotConfig"
    using result_robot_type_is_configured
      [of default_RobotConfig 0 "[(''image'', JStr ''frame''), (''robot_type'', JStr ''KOCH'')]"
          1 "initial_state healthy_network" "[]"]
    by blast
  then show ?thesis
    by (simp add: default_RobotConfig_def)
qed

text \<open>
  Claim C3, as stated: an error while processing one frame is answered with the
  no-hand-detected result and the connection stays open. A track message whose payload is
  a string makes the tracking function raise; the handler then sends nothing, leaves its
  loop and removes the connection from the registry.
\<close>

theorem frame_error_keeps_open_counterexample:
  "process_hand_tracking default_RobotConfig 0 (JStr ''frame'') =
     Inl (HTTPException 500
            (''Tracking error: '' @ [CHR 0x27] @ ''str'' @ [CHR 0x27] @
             '' object has no attribute '' @ [CHR 0x27] @ ''get'' @ [CHR 0x27])) \<and>
   handler_step 1 0
     (Receive (JObj [(''type'', JStr ''track''), (''data'', JStr ''frame'')]))
     (register 1 (initial_state healthy_network))
   = (CLOSED, initial_state healthy_network) \<and>
   outbox (initial_state healthy_network) 1 = [] \<and>
   websocket_connections (initial_state healthy_network) = []"
  by (simp add: handler_step_def loop_body_def process_hand_tracking_def finally_block_def
                register_def initial_state_def no_messages_def)

lemma remove1_last_entry: "count_list xs x \<le> 1 \<Longrightarrow> x \<notin> set (remove1 x xs)"
  by (induction xs) (auto simp: count_list_0_iff)

text \<open>
  Claim C3, amended. The tracking function raises exactly when its payload is not a
  JSON object, and what it raises is \<^verbatim>\<open>HTTPException\<close> with status 500 and the detail
  \<^verbatim>\<open>Tracking error:\<close> followed by the text of the attribute error. For a track message
  on an open connection whose payload makes it raise, the handler sends no reply, ends
  its loop and runs its \<^verbatim>\<open>finally\<close> block, which removes the first entry of the
  connection from the registry, so that a connection listed once is no longer
  registered: the connection is closed. An image message never makes the tracking
  function raise.
\<close>

theorem frame_error_closes_connection:
  "((\<forall>d. payload \<noteq> JObj d) \<longrightarrow>
      process_hand_tracking cfg now payload =
        Inl (HTTPException 500
               (''Tracking error: '' @ [CHR 0x27] @ py_type_name payload @ [CHR 0x27] @
                '' object has no attribute '' @ [CHR 0x27] @ ''get'' @ [CHR 0x27]))) \<and>
   ((\<exists>e. process_hand_tracking cfg now payload = Inl e) \<longleftrightarrow> (\<forall>d. payload \<noteq> JObj d)) \<and>
   (py_get data ''type'' JNull = Inr (JStr ''track'') \<and>
    py_get data ''data'' (JObj []) = Inr payload \<and>
    (\<forall>d. payload \<noteq> JObj d) \<longrightarrow>
      handler_step ws now (Receive data) st = (CLOSED, finally_block ws st) \<and>
      outbox (finally_block ws st) = outbox st \<and>
      websocket_connections (finally_block ws st) = remove1 ws (websocket_connections st) \<and>
      (count_list (websocket_connections st) ws \<le> 1 \<longrightarrow>
         ws \<notin> set (websocket_connections (finally_block ws st)))) \<and>
   (py_get data ''type'' JNull = Inr (JStr ''image'') \<longrightarrow>
      (\<exists>d r. image_tracking_data data = Inr (JObj d) \<and>
             process_hand_tracking (current_robot_config st) now (JObj d) = Inr r))"
proof -
  have a: "process_hand_tracking cfg now payload =
        Inl (HTTPException 500
               (''Tracking error: '' @ [CHR 0x27] @ py_type_name payload @ [CHR 0x27] @
                '' object has no attribute '' @ [CHR 0x27] @ ''get'' @ [CHR 0x27]))"
    if "\<forall>d. payload \<noteq> JObj d"
    using that by (rule process_hand_tracking_raises)
  have a': "(\<exists>e. process_hand_tracking cfg now payload = Inl e) \<longleftrightarrow> (\<forall>d. payload \<noteq> JObj d)"
    by (rule process_hand_tracking_fails_iff)
  have b: "handler_step ws now (Receive data) st = (CLOSED, finally_block ws st) \<and>
      outbox (finally_block ws st) = outbox st \<and>
      websocket_connections (finally_block ws st) = remove1 ws (websocket_connections st) \<and>
      (count_list (websocket_connections st) ws \<le> 1 \<longrightarrow>
         ws \<notin> set (websocket_connections (finally_block ws st)))"
    if ty: "py_get data ''type'' JNull = Inr (JStr ''track'')"
      and pl: "py_get data ''data'' (JObj []) = Inr payload"
      and nd: "\<forall>d. payload \<noteq> JObj d"
  proof -
    from nd obtain e where
      e: "process_hand_tracking (current_robot_config st) now payload = Inl e"
      using process_hand_tracking_fails_iff by blast
    have rm: "websocket_connections (finally_block ws st)
                = remove1 ws (websocket_connections st)"
      by (simp add: finally_block_def remove1_idem)
    from ty pl e have "handler_step ws now (Receive data) st = (CLOSED, finally_block ws st)"
      by (simp add: handler_step_def loop_body_def)
    moreover have "outbox (finally_block ws st) = outbox st"
      by (simp add: finally_block_def)
    moreover have "count_list (websocket_connections st) ws \<le> 1 \<longrightarrow>
         ws \<notin> set (websocket_connections (finally_block ws st))"
      by (simp add: rm remove1_last_entry)
    ultimately show ?thesis using rm by blast
  qed
  have c: "\<exists>d r. image_tracking_data data = Inr (JObj d) \<and>
             process_hand_tracking (current_robot_config st) now (JObj d) = Inr r"
    if "py_get data ''type'' JNull = Inr (JStr ''image'')"
  proof -
    from that obtain m where "data = JObj m"
      using py_get_Inr by blast
    then show ?thesis
      using image_tracking_data_dict [of m] by (auto simp: process_hand_tracking_dict)
  qed
  from a a' b c show ?thesis by blast
qed

theorem frame_error_closes_connection_witness:
  "process_hand_tracking default_RobotConfig 0 (JArr []) =
     Inl (HTTPException 500
            (''Tracking error: '' @ [CHR 0x27] @ ''list'' @ [CHR 0x27] @
             '' object has no attribute '' @ [CHR 0x27] @ ''get'' @ [CHR 0x27])) \<and>
   fst (handler_step 1 0
     (Receive (JObj [(''type'', JStr ''track''), (''data'', JArr [])]))
     (register 1 (initial_state healthy_network))) = CLOSED \<and>
   websocket_connections (snd (handler_step 1 0
     (Receive (JObj [(''type'', JStr ''track''), (''data'', JArr [])]))
     (register 1 (initial_state healthy_network)))) = []"
proof -
  have nd: "\<forall>d. JArr [] \<noteq> JObj d"
    by simp
  have ty: "py_get (JObj [(''type'', JStr ''track''), (''data'', JArr [])]) ''type'' JNull
              = Inr (JStr ''track'')"
    by simp
  have pl: "py_get (JObj [(''type'', JStr ''track''), (''data'', JArr [])]) ''data'' (JObj [])
              = Inr (JArr [])"
    by simp
  from frame_error_closes_connection
         [of "JArr []" default_RobotConfig 0
             "JObj [(''type'', JStr ''track''), (''data'', JArr [])]"
             1 "register 1 (initial_state healthy_network)"]
       nd ty pl
  show ?thesis
    by (simp add: finally_block_def register_def initial_state_def)
qed

section \<open>Setting the configuration: no validation\<close>

text \<open>
  Claim C1, as stated: a configuration whose workspace bounds are not three axes with
  \<open>min \<le> max\<close> is rejected, the stored configuration stays and nothing is broadcast.
  A configuration whose x axis is \<open>[1, 0]\<close> is stored in place of the default one,
  answered with success, and broadcast to the registered connection.
\<close>

theorem set_config_validation_counterexample:
  "\<not> spec_valid_workspace_bounds (workspace_bounds inverted_bounds_config) \<and>
   current_robot_config (register 1 (initial_state healthy_network)) = default_RobotConfig \<and>
   default_RobotConfig \<noteq> inverted_bounds_config \<and>
   current_robot_config
     (fst (set_robot_config inverted_bounds_config []
             (register 1 (initial_state healthy_network))))
     = inverted_bounds_config \<and>
   response_success
     (snd (set_robot_config inverted_bounds_config []
             (register 1 (initial_state healthy_network)))) \<and>
   outbox
     (fst (set_robot_config inverted_bounds_config []
             (register 1 (initial_state healthy_network)))) 1
     = [ConfigUpdate inverted_bounds_config]"
proof -
  have "\<not> spec_valid_workspace_bounds (workspace_bounds inverted_bounds_config)"
    by (simp add: spec_valid_workspace_bounds_def spec_valid_axis_def inverted_bounds_config_def)
  moreover have "default_RobotConfig \<noteq> inverted_bounds_config"
    by (simp add: default_RobotConfig_def inverted_bounds_config_def)
  moreover have "current_robot_config (register 1 (initial_state healthy_network))
                   = default_RobotConfig"
    by (simp add: register_def initial_state_def)
  moreover have "current_robot_config
     (fst (set_robot_config inverted_bounds_config []
             (register 1 (initial_state healthy_network))))
     = inverted_bounds_config"
    by (simp add: set_robot_config_def Let_def broadcast_config)
  moreover have "response_success
     (snd (set_robot_config inverted_bounds_config []
             (register 1 (initial_state healthy_network))))"
    by (simp add: set_robot_config_def Let_def)
  moreover have "outbox
     (fst (set_robot_config inverted_bounds_config []
             (register 1 (initial_state healthy_network)))) 1
     = [ConfigUpdate inverted_bounds_config]"
    by (simp add: set_robot_config_def Let_def broadcast_outbox register_def initial_state_def
                  healthy_network_def no_messages_def)
  ultimately show ?thesis by blast
qed

text \<open>
  Claim C1, amended. The set-configuration operation validates nothing: for every
  configuration, whatever its workspace bounds and whatever else runs meanwhile, it
  assigns the value to the store, runs the broadcast from there and answers with success,
  with the stored value it reads after the broadcast and a message naming the robot type
  it was given. When no other coroutine assigns the configuration while the broadcast
  awaits its sends, the value stored after the call and the value returned are the given
  one. When nothing else runs during the broadcast, every registered connection whose
  send succeeds has been sent a \<^verbatim>\<open>config_update\<close> carrying that value, once per
  entry, and the registry keeps exactly those connections.
\<close>

theorem set_robot_config_accepts_every_config:
  "fst (set_robot_config config env st) =
     broadcast_config_update env (st\<lparr>current_robot_config := config\<rparr>) \<and>
   response_success (snd (set_robot_config config env st)) \<and>
   response_robot_config (snd (set_robot_config config env st)) =
     current_robot_config (fst (set_robot_config config env st)) \<and>
   response_message (snd (set_robot_config config env st)) =
     ''Robot configured to '' @ robot_type config \<and>
   ((\<forall>f \<in> set env. \<forall>s. current_robot_config (f s) = current_robot_config s) \<longrightarrow>
      current_robot_config (fst (set_robot_config config env st)) = config \<and>
      response_robot_config (snd (set_robot_config config env st)) = config) \<and>
   (\<forall>h. outbox (fst (set_robot_config config [] st)) h =
        outbox st h @ replicate (if link_up st h then count_list (websocket_connections st) h else 0)
                        (ConfigUpdate config)) \<and>
   websocket_connections (fst (set_robot_config config [] st)) =
     filter (link_up st) (websocket_connections st)"
  by (simp add: set_robot_config_def Let_def broadcast_config_any broadcast_outbox
                broadcast_registry)

theorem set_robot_config_accepts_every_config_witness:
  "current_robot_config
     (fst (set_robot_config
             \<lparr>robot_type = ''SO-100'', end_effector = ''gripper'', workspace_bounds = []\<rparr>
             [finally_block 1]
             (register 2 (register 1 (initial_state (all_but 2))))))
     = \<lparr>robot_type = ''SO-100'', end_effector = ''gripper'', workspace_bounds = []\<rparr> \<and>
   websocket_connections
     (fst (set_robot_config
             \<lparr>robot_type = ''SO-100'', end_effector = ''gripper'', workspace_bounds = []\<rparr>
             []
             (register 2 (register 1 (initial_state (all_but 2))))))
     = [1]"
proof -
  have quiet: "\<forall>f \<in> set [finally_block 1]. \<forall>s.
                 current_robot_config (f s) = current_robot_config s"
    by (simp add: finally_block_def)
  from set_robot_config_accepts_every_config
         [of "\<lparr>robot_type = ''SO-100'', end_effector = ''gripper'', workspace_bounds = []\<rparr>"
             "[finally_block 1]" "register 2 (register 1 (initial_state (all_but 2)))"]
       quiet
  have "current_robot_config
     (fst (set_robot_config
             \<lparr>robot_type = ''SO-100'', end_effector = ''gripper'', workspace_bounds = []\<rparr>
             [finally_block 1]
             (register 2 (register 1 (initial_state (all_but 2))))))
     = \<lparr>robot_type = ''SO-100'', end_effector = ''gripper'', workspace_bounds = []\<rparr>"
    by blast
  moreover have "websocket_connections
     (fst (set_robot_config
             \<lparr>robot_type = ''SO-100'', end_effector = ''gripper'', workspace_bounds = []\<rparr>
             []
             (register 2 (register 1 (initial_state (all_but 2))))))
     = [1]"
    by (simp add: set_robot_config_def Let_def broadcast_registry register_def
                  initial_state_def all_but_def)
  ultimately show ?thesis by blast
qed

section \<open>Duplicate entries in the registry\<close>




section \<open>The session manager: start time\<close>

lemma start_time_of_activate:
  "start_time_of sid (snd (activate sid' config now sessions)) =
     (if sid = sid'
      then (case start_time_of sid sessions of None \<Rightarrow> Some now | Some t \<Rightarrow> Some t)
      else start_time_of sid sessions)"
  by (auto simp: activate_def start_time_of_def Let_def split: option.splits)

lemma start_time_of_deactivate:
  "start_time_of sid (deactivate sid' sessions) = start_time_of sid sessions"
  by (auto simp: deactivate_def start_time_of_def split: option.splits)

lemma start_time_of_apply:
  "start_time_of sid (apply_session_op op sessions) = None \<longleftrightarrow>
     start_time_of sid sessions = None \<and> \<not> ever_activated sid [op]"
  by (cases op) (auto simp: start_time_of_activate start_time_of_deactivate split: option.splits)

lemma ever_activated_Cons:
  "ever_activated sid (op # ops) \<longleftrightarrow> ever_activated sid [op] \<or> ever_activated sid ops"
  by (cases op) auto

lemma start_time_of_run:
  "start_time_of sid (run_session_ops ops sessions) = None \<longleftrightarrow>
     start_time_of sid sessions = None \<and> \<not> ever_activated sid ops"
proof (induction ops arbitrary: sessions)
  case Nil
  show ?case by simp
next
  case (Cons op ops)
  have "start_time_of sid (run_session_ops (op # ops) sessions) = None \<longleftrightarrow>
          start_time_of sid (apply_session_op op sessions) = None \<and> \<not> ever_activated sid ops"
    by (simp add: Cons.IH)
  also have "\<dots> \<longleftrightarrow> start_time_of sid sessions = None \<and>
                    \<not> ever_activated sid [op] \<and> \<not> ever_activated sid ops"
    by (simp add: start_time_of_apply)
  also have "\<dots> \<longleftrightarrow> start_time_of sid sessions = None \<and> \<not> ever_activated sid (op # ops)"
    using ever_activated_Cons [of sid op ops] by blast
  finally show ?case .
qed

text \<open>
  Claim C6. Two successive calls of \<^verbatim>\<open>activate\<close> for the same id: the first leaves the
  session with a start time (the clock reading of that call when the id had none
  before), the second leaves the start time as the first left it and stores the
  configuration it is given. In every state the manager reaches from the empty dictionary,
  an id has no start time exactly when it has never been activated.
\<close>

theorem activate_twice_start_time_stable:
  assumes "activate sid config1 t1 sessions = (s1, sessions1)"
    and "activate sid config2 t2 sessions1 = (s2, sessions2)"
  shows "start_time s1 \<noteq> None \<and>
         (start_time_of sid sessions = None \<longrightarrow> start_time s1 = Some t1) \<and>
         start_time s2 = start_time s1 \<and>
         robot_config s1 = config1 \<and>
         robot_config s2 = config2 \<and>
         sessions2 sid = Some s2 \<and>
         (\<forall>ops. start_time_of sid (run_session_ops ops Map.empty) = None \<longleftrightarrow>
                \<not> ever_activated sid ops)"
proof -
  have empty: "start_time_of sid Map.empty = None"
    by (simp add: start_time_of_def)
  have inv: "\<forall>ops. start_time_of sid (run_session_ops ops Map.empty) = None \<longleftrightarrow>
                   \<not> ever_activated sid ops"
    by (simp add: start_time_of_run empty)
  from assms(1) have first: "start_time s1 \<noteq> None" "robot_config s1 = config1"
    "sessions1 sid = Some s1"
    "start_time_of sid sessions = None \<longrightarrow> start_time s1 = Some t1"
    by (auto simp: activate_def start_time_of_def Let_def split: option.splits if_splits)
  from assms(2) first(1,3) have second: "start_time s2 = start_time s1"
    "robot_config s2 = config2" "sessions2 sid = Some s2"
    by (auto simp: activate_def Let_def split: if_splits)
  from inv first second show ?thesis by blast
qed

theorem activate_twice_start_time_stable_witness:
  "start_time (fst (activate ''s'' default_RobotConfig 5 Map.empty)) = Some 5 \<and>
   start_time (fst (activate ''s'' inverted_bounds_config 9
                      (snd (activate ''s'' default_RobotConfig 5 Map.empty)))) = Some 5 \<and>
   robot_config (fst (activate ''s'' inverted_bounds_config 9
                      (snd (activate ''s'' default_RobotConfig 5 Map.empty))))
     = inverted_bounds_config"
proof -
  have none: "start_time_of ''s'' Map.empty = None"
    by (simp add: start_time_of_def)
  from activate_twice_start_time_stable
         [OF prod.collapse [symmetric] prod.collapse [symmetric],
          of "''s''" default_RobotConfig 5 Map.empty inverted_bounds_config 9]
       none
  show ?thesis by simp
qed

end
